theory Spec2Isabelle
  imports Complex_Main "HOL-Library.AList" "HOL-Library.Multiset"
begin

section \<open>The hybrid retrieval engine of \<^verbatim>\<open>vector_store.py\<close>\<close>

text \<open>
  The class \<^verbatim>\<open>VectorStore\<close> keeps a dense matrix (numpy), a list of chunk
  records, a dictionary of document records, a BM25 index and its tokenized corpus, and
  three files under its storage directory. The model passes the state explicitly: every
  operation takes the store and returns the store it leaves behind, together with its
  result or the exception it raised. An exception leaves the mutations made before it in
  place, as in Python.

  Numbers: Python floats and numpy's float32 are modelled by \<^typ>\<open>real\<close>, that is,
  arithmetic is exact. The embedding provider (\<^verbatim>\<open>genai.embed_content\<close>) and the
  BM25 library (\<^verbatim>\<open>rank_bm25.BM25Okapi\<close>) are not code of this repository; they are
  parameters of the model, collected in the record \<open>env\<close>.
\<close>

subsection \<open>Errors and numpy arrays\<close>

datatype error = EmbeddingFailure string | ValueError | IndexError | LibraryError string

text \<open>
  A numpy array of floats, as far as the store uses it: one-dimensional, or
  two-dimensional with its row width (shape \<open>(n, d)\<close>, where \<open>n\<close> may be 0).
\<close>

datatype ndarray = Arr1 "real list" | Arr2 nat "real list list"

text \<open>\<^verbatim>\<open>np.array(embeddings, dtype='float32')\<close> on a list of lists of floats: the empty
  list gives a one-dimensional empty array, rows of one length give a matrix, ragged rows
  raise ValueError. The values are kept as they are: the rounding to float32 is not
  modelled.\<close>

fun np_array :: "real list list \<Rightarrow> error + ndarray" where
  "np_array [] = Inr (Arr1 [])"
| "np_array (r # rs) =
     (if list_all (\<lambda>x. length x = length r) rs then Inr (Arr2 (length r) (r # rs))
      else Inl ValueError)"

fun np_len :: "ndarray \<Rightarrow> nat" where
  "np_len (Arr1 xs) = length xs"
| "np_len (Arr2 d rows) = length rows"

fun atleast_2d :: "ndarray \<Rightarrow> nat \<times> real list list" where
  "atleast_2d (Arr1 xs) = (length xs, [xs])"
| "atleast_2d (Arr2 d rows) = (d, rows)"

text \<open>\<^verbatim>\<open>np.vstack((a, b))\<close>: both arguments are made two-dimensional, and the widths
  must agree.\<close>

definition np_vstack :: "ndarray \<Rightarrow> ndarray \<Rightarrow> error + ndarray" where
  "np_vstack a b =
     (case atleast_2d a of (da, ra) \<Rightarrow>
      case atleast_2d b of (db, rb) \<Rightarrow>
        if da = db then Inr (Arr2 da (ra @ rb)) else Inl ValueError)"

text \<open>\<^verbatim>\<open>a[indices]\<close> with a list of non-negative indices: selects along the first
  axis, IndexError when an index is out of bounds.\<close>

fun np_take :: "ndarray \<Rightarrow> nat list \<Rightarrow> error + ndarray" where
  "np_take (Arr1 xs) idx =
     (if list_all (\<lambda>i. i < length xs) idx then Inr (Arr1 (map ((!) xs) idx))
      else Inl IndexError)"
| "np_take (Arr2 d rows) idx =
     (if list_all (\<lambda>i. i < length rows) idx then Inr (Arr2 d (map ((!) rows) idx))
      else Inl IndexError)"

text \<open>\<^verbatim>\<open>np.linalg.norm\<close> of a vector and \<^verbatim>\<open>np.dot\<close> of two vectors.\<close>

definition norm2 :: "real list \<Rightarrow> real" where
  "norm2 xs = sqrt (sum_list (map (\<lambda>x. x * x) xs))"

definition dot :: "real list \<Rightarrow> real list \<Rightarrow> real" where
  "dot xs ys = sum_list (map (\<lambda>(x, y). x * y) (zip xs ys))"

subsection \<open>Records\<close>

text \<open>A chunk payload as the document processor hands it over, the chunk record the
  store keeps (the payload plus \<open>document_id\<close> and \<open>chunk_id\<close>), and a search result
  (the chunk record plus its three scores). The key \<^verbatim>\<open>text\<close> of the source is the
  field \<open>chunk_text\<close>.\<close>

record chunk =
  chunk_text :: string
  chunk_index :: nat
  filename :: string
  char_count :: nat
  approx_tokens :: nat

record chunk_meta = chunk +
  document_id :: string
  chunk_id :: string

record search_result = chunk_meta +
  score :: real
  vector_score :: real
  bm25_score :: real

record doc_record =
  doc_document_id :: string
  doc_filename :: string
  status :: string
  chunks_count :: int
  processed_at :: "string option"

text \<open>The three files of the storage directory; \<open>None\<close> is a file that does not
  exist. \<^verbatim>\<open>np.save\<close>/\<^verbatim>\<open>np.load\<close>, pickle and JSON are taken to round-trip the
  values they are given.\<close>

record disk =
  vectors_npy :: "ndarray option"
  chunks_metadata_pkl :: "chunk_meta list option"
  document_metadata_json :: "(string \<times> doc_record) list option"

text \<open>The store. \<open>document_metadata\<close> is a Python dict, kept as an association list
  in insertion order; \<open>bm25\<close> is the BM25Okapi object, kept as its \<^verbatim>\<open>get_scores\<close>
  method.\<close>

record store =
  vectors :: "ndarray option"
  chunks_metadata :: "chunk_meta list"
  document_metadata :: "(string \<times> doc_record) list"
  bm25 :: "(string list \<Rightarrow> real list) option"
  tokenized_corpus :: "string list list"
  files :: disk

text \<open>The external collaborators: the embedding provider in document mode (a batch of
  texts) and in query mode, and the constructor of the BM25 index over a tokenized
  corpus, which returns the index's scoring method. Each may raise.\<close>

record env =
  embed_documents :: "string list \<Rightarrow> error + real list list"
  embed_query :: "string \<Rightarrow> error + real list"
  BM25Okapi :: "string list list \<Rightarrow> error + (string list \<Rightarrow> real list)"

subsection \<open>Tokenizer and chunk ids\<close>

text \<open>\<^verbatim>\<open>text.lower().split()\<close>, on ASCII: upper-case letters are lowered, and the
  text is split at runs of whitespace, with no empty token.\<close>

definition isspace :: "char \<Rightarrow> bool" where
  "isspace c = (of_char c \<in> {9, 10, 11, 12, 13, 28, 29, 30, 31, 32 :: nat})"

definition lower_char :: "char \<Rightarrow> char" where
  "lower_char c =
     (let n = (of_char c :: nat) in if 65 \<le> n \<and> n \<le> 90 then char_of (n + 32) else c)"

fun split_ws :: "string \<Rightarrow> string \<Rightarrow> string list" where
  "split_ws cur [] = (if cur = [] then [] else [cur])"
| "split_ws cur (c # cs) =
     (if isspace c then (if cur = [] then split_ws [] cs else cur # split_ws [] cs)
      else split_ws (cur @ [c]) cs)"

definition tokenize :: "string \<Rightarrow> string list" where
  "tokenize t = split_ws [] (map lower_char t)"

function str_nat :: "nat \<Rightarrow> string" where
  "str_nat n =
     (if n < 10 then [char_of (48 + n)]
      else str_nat (n div 10) @ [char_of (48 + n mod 10)])"
  by pat_completeness auto
termination
  by (relation "measure (\<lambda>n. n)") auto

declare str_nat.simps [simp del]

subsection \<open>Persistence\<close>

text \<open>\<^verbatim>\<open>_save_to_disk\<close>: the matrix is written only when it is not None; the chunk
  records and the document records are always written.\<close>

definition save_to_disk :: "store \<Rightarrow> store" where
  "save_to_disk s =
     s\<lparr>files := (files s)
        \<lparr>vectors_npy := (case vectors s of None \<Rightarrow> vectors_npy (files s) | Some v \<Rightarrow> Some v),
         chunks_metadata_pkl := Some (chunks_metadata s),
         document_metadata_json := Some (document_metadata s)\<rparr>\<rparr>"

text \<open>The state \<^verbatim>\<open>__init__\<close> sets up before it loads, over a given disk.\<close>

definition fresh :: "disk \<Rightarrow> store" where
  "fresh d = \<lparr>vectors = None, chunks_metadata = [], document_metadata = [], bm25 = None,
              tokenized_corpus = [], files = d\<rparr>"

text \<open>\<^verbatim>\<open>_load_from_disk\<close>. A failure of the BM25 constructor is caught there: the
  chunk records are reset to the empty list (the tokenized corpus stays assigned).\<close>

definition load_chunks :: "env \<Rightarrow> store \<Rightarrow> store" where
  "load_chunks env s =
     (case chunks_metadata_pkl (files s) of
        None \<Rightarrow> s
      | Some cs \<Rightarrow>
          let s1 = s\<lparr>chunks_metadata := cs\<rparr> in
          if cs \<noteq> [] then
            let s2 = s1\<lparr>tokenized_corpus := map (\<lambda>c. tokenize (chunk_text c)) cs\<rparr> in
            (case BM25Okapi env (tokenized_corpus s2) of
               Inl e \<Rightarrow> s2\<lparr>chunks_metadata := []\<rparr>
             | Inr idx \<Rightarrow> s2\<lparr>bm25 := Some idx\<rparr>)
          else s1)"

definition load_from_disk :: "env \<Rightarrow> store \<Rightarrow> store" where
  "load_from_disk env s =
     (let s1 = (case vectors_npy (files s) of None \<Rightarrow> s | Some v \<Rightarrow> s\<lparr>vectors := Some v\<rparr>);
          s2 = load_chunks env s1
      in case document_metadata_json (files s2) of
           None \<Rightarrow> s2
         | Some dm \<Rightarrow> s2\<lparr>document_metadata := dm\<rparr>)"

text \<open>\<^verbatim>\<open>VectorStore(storage_dir=...)\<close>: a fresh engine over a storage directory.\<close>

definition init :: "env \<Rightarrow> disk \<Rightarrow> store" where
  "init env d = load_from_disk env (fresh d)"

definition empty_disk :: disk where
  "empty_disk = \<lparr>vectors_npy = None, chunks_metadata_pkl = None, document_metadata_json = None\<rparr>"

subsection \<open>add_chunks\<close>

definition batch_size :: nat where
  "batch_size = 20"

text \<open>The batch loop of \<^verbatim>\<open>add_chunks\<close>: the texts are embedded 20 at a time, and
  the first batch that fails ends the loop with its exception.\<close>

function embed_batches :: "env \<Rightarrow> string list \<Rightarrow> error + real list list" where
  "embed_batches env texts =
     (if texts = [] then Inr []
      else case embed_documents env (take batch_size texts) of
             Inl e \<Rightarrow> Inl e
           | Inr batch_embeddings \<Rightarrow>
               (case embed_batches env (drop batch_size texts) of
                  Inl e \<Rightarrow> Inl e
                | Inr rest \<Rightarrow> Inr (batch_embeddings @ rest)))"
  by pat_completeness auto
termination
  by (relation "measure (\<lambda>(env, texts). length texts)") (auto simp: batch_size_def)

declare embed_batches.simps [simp del]

definition make_meta :: "string \<Rightarrow> nat \<Rightarrow> chunk \<Rightarrow> chunk_meta" where
  "make_meta doc_id i c =
     chunk.extend c (chunk_meta.fields doc_id (doc_id @ ''_chunk_'' @ str_nat i))"

definition store_metadata :: "string \<Rightarrow> chunk list \<Rightarrow> chunk_meta list" where
  "store_metadata doc_id chunks = map (\<lambda>(i, c). make_meta doc_id i c) (enumerate 0 chunks)"

definition add_chunks :: "env \<Rightarrow> string \<Rightarrow> chunk list \<Rightarrow> store \<Rightarrow> (error + unit) \<times> store" where
  "add_chunks env doc_id chunks s =
     (if chunks = [] then (Inr (), s)
      else
        let texts = map chunk_text chunks in
        case embed_batches env texts of
          Inl e \<Rightarrow> (Inl e, s)
        | Inr embeddings \<Rightarrow>
        case np_array embeddings of
          Inl e \<Rightarrow> (Inl e, s)
        | Inr embeddings_np \<Rightarrow>
        case (case vectors s of
                None \<Rightarrow> Inr embeddings_np
              | Some v \<Rightarrow> np_vstack v embeddings_np) of
          Inl e \<Rightarrow> (Inl e, s)
        | Inr v' \<Rightarrow>
        let s1 = s\<lparr>vectors := Some v'\<rparr>;
            s2 = s1\<lparr>tokenized_corpus := tokenized_corpus s1 @ map tokenize texts\<rparr>
        in
        case (if tokenized_corpus s2 \<noteq> []
              then map_sum id Some (BM25Okapi env (tokenized_corpus s2))
              else Inr (bm25 s2)) of
          Inl e \<Rightarrow> (Inl e, s2)
        | Inr b \<Rightarrow>
        let s3 = s2\<lparr>bm25 := b\<rparr>;
            s4 = s3\<lparr>chunks_metadata := chunks_metadata s3 @ store_metadata doc_id chunks\<rparr>
        in (Inr (), save_to_disk s4))"

subsection \<open>search\<close>

text \<open>The dense path, the body of the first \<^verbatim>\<open>try\<close> of \<^verbatim>\<open>search\<close>. The result
  is the dictionary \<^verbatim>\<open>vector_results\<close>, whose keys are \<open>0, ..., n - 1\<close>: it is kept
  as the list of its values. Every exception is caught and leaves the dictionary empty:
  a failure of the provider, and the axis error of \<^verbatim>\<open>np.linalg.norm(..., axis=1)\<close> on
  a one-dimensional array. A dimension mismatch leaves it empty too.\<close>

definition vector_results :: "env \<Rightarrow> store \<Rightarrow> string \<Rightarrow> real list" where
  "vector_results env s query =
     (case embed_query env query of
        Inl e \<Rightarrow> []
      | Inr embedding \<Rightarrow>
          let norm_query = norm2 embedding;
              query_embedding =
                (if norm_query > 0 then map (\<lambda>x. x / norm_query) embedding else embedding)
          in case vectors s of
               None \<Rightarrow> []
             | Some (Arr1 xs) \<Rightarrow> []
             | Some (Arr2 d rows) \<Rightarrow>
                 let doc_norms = map (\<lambda>r. if norm2 r = 0 then 1 else norm2 r) rows in
                 if d = length query_embedding
                 then map (\<lambda>(r, n). dot r query_embedding / n) (zip rows doc_norms)
                 else [])"

text \<open>Python's \<^verbatim>\<open>max\<close> of a non-empty sequence.\<close>

fun py_max :: "real list \<Rightarrow> real" where
  "py_max [] = 0"
| "py_max (x # xs) = fold max xs x"

text \<open>The sparse path: the raw scores of the index, divided by their maximum (by 1
  when there is no score or the maximum is 0). The dictionary \<^verbatim>\<open>bm25_results\<close> is
  kept as the list of its values.\<close>

definition bm25_results :: "store \<Rightarrow> string \<Rightarrow> real list" where
  "bm25_results s query =
     (case bm25 s of
        None \<Rightarrow> []
      | Some get_scores \<Rightarrow>
          let bm25_scores = get_scores (tokenize query);
              max_bm25 = (if length bm25_scores > 0 then py_max bm25_scores else 1);
              max_bm25 = (if max_bm25 = 0 then 1 else max_bm25)
          in map (\<lambda>sc. sc / max_bm25) bm25_scores)"

text \<open>\<^verbatim>\<open>d.get(idx, 0.0)\<close> on such a dictionary.\<close>

definition dict_get :: "real list \<Rightarrow> nat \<Rightarrow> real" where
  "dict_get d idx = (if idx < length d then d ! idx else 0)"

definition annotate :: "chunk_meta \<Rightarrow> real \<Rightarrow> real \<Rightarrow> real \<Rightarrow> search_result" where
  "annotate m final_score v_score b_score =
     chunk_meta.extend m (search_result.fields final_score v_score b_score)"

text \<open>The fusion loop over the candidate indices. The filter applies when
  \<^verbatim>\<open>document_id\<close> is truthy: not None and not the empty string.\<close>

fun fuse ::
  "chunk_meta list \<Rightarrow> string option \<Rightarrow> real \<Rightarrow> real list \<Rightarrow> real list \<Rightarrow> nat list
    \<Rightarrow> search_result list" where
  "fuse cms doc_filter alpha vr br [] = []"
| "fuse cms doc_filter alpha vr br (idx # rest) =
     (if idx \<ge> length cms then fuse cms doc_filter alpha vr br rest
      else
        let chunk_meta = cms ! idx in
        if (case doc_filter of None \<Rightarrow> False
            | Some d \<Rightarrow> d \<noteq> [] \<and> document_id chunk_meta \<noteq> d)
        then fuse cms doc_filter alpha vr br rest
        else
          let v_score = dict_get vr idx;
              b_score = dict_get br idx;
              final_score = (alpha * v_score) + ((1 - alpha) * b_score)
          in annotate chunk_meta final_score v_score b_score
               # fuse cms doc_filter alpha vr br rest)"

text \<open>\<^verbatim>\<open>all_candidates\<close> is the union of the two key sets, a Python set of the
  integers \<open>0, ..., n - 1\<close>; CPython iterates such a set in ascending order, which is
  the order taken here. \<open>final_results\<close> is the list the loop has built before it is
  sorted.\<close>

definition all_candidates :: "real list \<Rightarrow> real list \<Rightarrow> nat list" where
  "all_candidates vr br = [0 ..< max (length vr) (length br)]"

definition final_results ::
  "env \<Rightarrow> store \<Rightarrow> string \<Rightarrow> string option \<Rightarrow> real \<Rightarrow> search_result list" where
  "final_results env s query doc_filter alpha =
     (let vr = vector_results env s query;
          br = bm25_results s query
      in fuse (chunks_metadata s) doc_filter alpha vr br (all_candidates vr br))"

text \<open>\<^verbatim>\<open>xs[:k]\<close> for an integer \<open>k\<close>: a negative \<open>k\<close> counts from the end.\<close>

definition slice_to :: "int \<Rightarrow> 'a list \<Rightarrow> 'a list" where
  "slice_to k xs = (if 0 \<le> k then take (nat k) xs else take (length xs - nat (- k)) xs)"

text \<open>\<^verbatim>\<open>sort(key=lambda x: x['score'], reverse=True)\<close> is a stable sort by descending
  score: a stable ascending sort on the negated score.\<close>

definition search ::
  "env \<Rightarrow> store \<Rightarrow> string \<Rightarrow> int \<Rightarrow> string option \<Rightarrow> real \<Rightarrow> search_result list" where
  "search env s query top_k doc_filter alpha =
     (if vectors s = None \<or> length (chunks_metadata s) = 0 then []
      else slice_to top_k
             (sort_key (\<lambda>r. - score r) (final_results env s query doc_filter alpha)))"

subsection \<open>Document records\<close>

text \<open>The first chunk record of the document gives the file name when none is
  supplied.\<close>

fun backfill_filename :: "chunk_meta list \<Rightarrow> string \<Rightarrow> string" where
  "backfill_filename [] doc_id = ''unknown''"
| "backfill_filename (c # cs) doc_id =
     (if document_id c = doc_id then filename c else backfill_filename cs doc_id)"

definition update_document_status ::
  "string \<Rightarrow> string \<Rightarrow> int \<Rightarrow> string option \<Rightarrow> string option \<Rightarrow> store \<Rightarrow> store" where
  "update_document_status doc_id st cnt pa fname s =
     save_to_disk
       (case map_of (document_metadata s) doc_id of
          None \<Rightarrow>
            let fname' = (case fname of
                            None \<Rightarrow> backfill_filename (chunks_metadata s) doc_id
                          | Some f \<Rightarrow> if f = [] then backfill_filename (chunks_metadata s) doc_id
                                      else f)
            in s\<lparr>document_metadata :=
                   AList.update doc_id
                     \<lparr>doc_document_id = doc_id, doc_filename = fname', status = st,
                      chunks_count = cnt, processed_at = pa\<rparr>
                     (document_metadata s)\<rparr>
        | Some r \<Rightarrow>
            let r1 = r\<lparr>status := st, chunks_count := cnt, processed_at := pa\<rparr>;
                r2 = (case fname of
                        None \<Rightarrow> r1
                      | Some f \<Rightarrow> if f = [] then r1 else r1\<lparr>doc_filename := f\<rparr>)
            in s\<lparr>document_metadata := AList.update doc_id r2 (document_metadata s)\<rparr>)"

definition get_document_status :: "store \<Rightarrow> string \<Rightarrow> doc_record option" where
  "get_document_status s doc_id = map_of (document_metadata s) doc_id"

definition list_documents :: "store \<Rightarrow> doc_record list" where
  "list_documents s = map snd (document_metadata s)"

definition has_documents :: "store \<Rightarrow> bool" where
  "has_documents s = (length (chunks_metadata s) > 0)"

subsection \<open>delete_document\<close>

definition remaining_indices :: "chunk_meta list \<Rightarrow> string \<Rightarrow> nat list" where
  "remaining_indices cms doc_id =
     filter (\<lambda>i. document_id (cms ! i) \<noteq> doc_id) [0 ..< length cms]"

text \<open>The status record is deleted first; the call then returns False, without saving,
  when no chunk record belongs to the document.\<close>

definition delete_document :: "env \<Rightarrow> string \<Rightarrow> store \<Rightarrow> (error + bool) \<times> store" where
  "delete_document env doc_id s =
     (if map_of (document_metadata s) doc_id = None then (Inr False, s)
      else
        let s1 = s\<lparr>document_metadata := AList.delete doc_id (document_metadata s)\<rparr>;
            remaining = remaining_indices (chunks_metadata s1) doc_id
        in
        if length remaining = length (chunks_metadata s1) then (Inr False, s1)
        else
          let s2 = s1\<lparr>chunks_metadata := map ((!) (chunks_metadata s1)) remaining\<rparr> in
          case (case vectors s2 of
                  None \<Rightarrow> Inr None
                | Some v \<Rightarrow> map_sum id Some (np_take v remaining)) of
            Inl e \<Rightarrow> (Inl e, s2)
          | Inr v' \<Rightarrow>
          let s3 = s2\<lparr>vectors := v', tokenized_corpus := []\<rparr> in
          if chunks_metadata s3 \<noteq> [] then
            let s4 = s3\<lparr>tokenized_corpus :=
                          map (\<lambda>c. tokenize (chunk_text c)) (chunks_metadata s3)\<rparr>
            in case BM25Okapi env (tokenized_corpus s4) of
                 Inl e \<Rightarrow> (Inl e, s4)
               | Inr idx \<Rightarrow> (Inr True, save_to_disk (s4\<lparr>bm25 := Some idx\<rparr>))
          else (Inr True, save_to_disk (s3\<lparr>bm25 := None, vectors := None\<rparr>)))"

subsection \<open>Notions the properties are stated with\<close>

text \<open>The number of rows of the dense matrix, 0 when it is None, and its rows.\<close>

definition row_count :: "store \<Rightarrow> nat" where
  "row_count s = (case vectors s of None \<Rightarrow> 0 | Some v \<Rightarrow> np_len v)"

definition dense_rows :: "store \<Rightarrow> real list list" where
  "dense_rows s = (case vectors s of None \<Rightarrow> [] | Some v \<Rightarrow> snd (atleast_2d v))"

text \<open>The contract of the embedding provider the store relies on and does not check:
  a batch that succeeds returns one vector for each of its texts.\<close>

definition provider_ok :: "env \<Rightarrow> bool" where
  "provider_ok env =
     (\<forall>ts vs. embed_documents env ts = Inr vs \<longrightarrow> length vs = length ts)"

text \<open>A provider that embeds each text by \<open>f\<close>, whenever it answers.\<close>

definition embeds_by :: "env \<Rightarrow> (string \<Rightarrow> real list) \<Rightarrow> bool" where
  "embeds_by env f = (\<forall>ts vs. embed_documents env ts = Inr vs \<longrightarrow> vs = map f ts)"

text \<open>The states a store goes through from the empty store (a fresh engine over an
  empty storage directory), by calls that return without an exception.\<close>

inductive reachable :: "env \<Rightarrow> store \<Rightarrow> bool" for env :: env where
  start: "reachable env (init env empty_disk)"
| add: "reachable env s \<Longrightarrow> add_chunks env doc_id chunks s = (Inr (), s')
         \<Longrightarrow> reachable env s'"
| delete: "reachable env s \<Longrightarrow> delete_document env doc_id s = (Inr b, s')
         \<Longrightarrow> reachable env s'"
| status: "reachable env s \<Longrightarrow> reachable env (update_document_status doc_id st cnt pa fname s)"

text \<open>The \<open>i\<close>-th batch of the loop of \<^verbatim>\<open>add_chunks\<close>.\<close>

definition batch :: "string list \<Rightarrow> nat \<Rightarrow> string list" where
  "batch texts i = take batch_size (drop (i * batch_size) texts)"


text \<open>The loop of \<open>fuse\<close> keeps the index \<open>idx\<close>, and builds this result for it.\<close>

definition keeps :: "chunk_meta list \<Rightarrow> string option \<Rightarrow> nat \<Rightarrow> bool" where
  "keeps cms doc_filter idx =
     (idx < length cms \<and>
      (case doc_filter of None \<Rightarrow> True | Some d \<Rightarrow> d = [] \<or> document_id (cms ! idx) = d))"

definition fused :: "chunk_meta list \<Rightarrow> real \<Rightarrow> real list \<Rightarrow> real list \<Rightarrow> nat \<Rightarrow> search_result" where
  "fused cms alpha vr br idx =
     annotate (cms ! idx) (alpha * dict_get vr idx + (1 - alpha) * dict_get br idx)
       (dict_get vr idx) (dict_get br idx)"

text \<open>The alignment of the three structures: the dense array is a matrix with one row
  for each chunk record (no array when there is no chunk record), and the sparse corpus
  holds the tokens of each chunk record's text, in order. \<open>rows_by f\<close>: the row at each
  position is the embedding \<open>f\<close> of the text of the chunk record at that position.\<close>

definition is_matrix :: "ndarray \<Rightarrow> bool" where
  "is_matrix v = (case v of Arr1 xs \<Rightarrow> False | Arr2 d rows \<Rightarrow> True)"

definition aligned :: "store \<Rightarrow> bool" where
  "aligned s =
     ((case vectors s of
         None \<Rightarrow> chunks_metadata s = []
       | Some v \<Rightarrow> is_matrix v \<and> np_len v = length (chunks_metadata s)) \<and>
      tokenized_corpus s = map (\<lambda>c. tokenize (chunk_text c)) (chunks_metadata s))"

definition rows_by :: "(string \<Rightarrow> real list) \<Rightarrow> store \<Rightarrow> bool" where
  "rows_by f s = (dense_rows s = map (\<lambda>c. f (chunk_text c)) (chunks_metadata s))"

subsection \<open>Sample collaborators and a sample store\<close>

text \<open>A provider that embeds a text by its first letter and every query as \<open>[1, 0]\<close>,
  a sparse index that counts the tokens of a document that occur in the query, and a
  provider that always fails.\<close>

definition demo_embedding :: "string \<Rightarrow> real list" where
  "demo_embedding t =
     (if take 1 t = ''c'' then [1, 0] else if take 1 t = ''d'' then [0, 1] else [- 1, 0])"

definition demo_scores :: "string list list \<Rightarrow> string list \<Rightarrow> real list" where
  "demo_scores corpus q = map (\<lambda>d. real (length (filter (\<lambda>w. w \<in> set q) d))) corpus"

definition demo_env :: env where
  "demo_env = \<lparr>embed_documents = (\<lambda>ts. Inr (map demo_embedding ts)),
               embed_query = (\<lambda>q. Inr [1, 0]),
               BM25Okapi = (\<lambda>corpus. Inr (demo_scores corpus))\<rparr>"

definition failing_env :: env where
  "failing_env = demo_env\<lparr>embed_documents := (\<lambda>ts. Inl (EmbeddingFailure ''quota''))\<rparr>"

definition mk_chunk :: "string \<Rightarrow> nat \<Rightarrow> chunk" where
  "mk_chunk t i = \<lparr>chunk_text = t, chunk_index = i, filename = ''a.txt'',
                   char_count = length t, approx_tokens = length t div 4\<rparr>"

definition demo_chunks :: "chunk list" where
  "demo_chunks = [mk_chunk ''cats are mammals'' 0, mk_chunk ''dogs are mammals'' 1,
                  mk_chunk ''rocks are minerals'' 2]"

definition empty_store :: store where
  "empty_store = init demo_env empty_disk"

text \<open>The store after \<^verbatim>\<open>add_chunks("doc1", ...)\<close> with the three chunks and
  \<^verbatim>\<open>update_document_status("doc1", "completed", 3, ...)\<close>.\<close>

definition demo_store :: store where
  "demo_store =
     update_document_status ''doc1'' ''completed'' 3 (Some ''2024-01-01T00:00:00'') None
       (snd (add_chunks demo_env ''doc1'' demo_chunks empty_store))"

text \<open>The sample store after a second document, \<^verbatim>\<open>"doc2"\<close>, with one chunk.\<close>

definition demo_store2 :: store where
  "demo_store2 = snd (add_chunks demo_env ''doc2'' [mk_chunk ''rocks are hard'' 0] demo_store)"

text \<open>The store after \<^verbatim>\<open>delete_document("doc1")\<close> on it.\<close>

definition demo_store3 :: store where
  "demo_store3 = snd (delete_document demo_env ''doc1'' demo_store2)"




text \<open>A store that holds only the status record of a document whose processing failed;
  the sample store after \<^verbatim>\<open>delete_document("doc1")\<close>, its only document; and a fresh
  engine over the storage directory that store has saved to.\<close>

definition demo_failed :: store where
  "demo_failed = update_document_status ''doc9'' ''failed'' 0 None (Some ''b.txt'') empty_store"

definition demo_deleted :: store where
  "demo_deleted = snd (delete_document demo_env ''doc1'' demo_store)"

definition demo_reloaded :: store where
  "demo_reloaded = init demo_env (files (save_to_disk demo_deleted))"

section \<open>Properties\<close>

subsection \<open>Auxiliary facts\<close>

lemma truncate_annotate: "chunk_meta.truncate (annotate m a b c) = m"
  by (simp add: annotate_def chunk_meta.defs chunk.defs search_result.defs)

lemma annotate_fields:
  "score (annotate m a b c) = a" "vector_score (annotate m a b c) = b"
  "bm25_score (annotate m a b c) = c" "document_id (annotate m a b c) = document_id m"
  by (simp_all add: annotate_def chunk_meta.defs chunk.defs search_result.defs)

lemma fuse_eq:
  "fuse cms doc_filter alpha vr br idxs =
     map (fused cms alpha vr br) (filter (keeps cms doc_filter) idxs)"
  by (induction idxs) (auto simp: keeps_def fused_def Let_def split: option.splits)

lemma set_slice_to: "set (slice_to k xs) \<subseteq> set xs"
  by (auto simp: slice_to_def dest: in_set_takeD)

lemma search_subset:
  "set (search env s q k f alpha) \<subseteq> set (final_results env s q f alpha)"
  using set_slice_to [of k "sort_key (\<lambda>r. - score r) (final_results env s q f alpha)"]
  by (auto simp: search_def)

lemma final_results_eq:
  "final_results env s q f alpha =
     map (fused (chunks_metadata s) alpha (vector_results env s q) (bm25_results s q))
       (filter (keeps (chunks_metadata s) f)
          (all_candidates (vector_results env s q) (bm25_results s q)))"
  by (simp add: final_results_def fuse_eq Let_def)

lemma empty_store_fields:
  "vectors empty_store = None" "chunks_metadata empty_store = []"
  "document_metadata empty_store = []" "bm25 empty_store = None"
  "tokenized_corpus empty_store = []" "files empty_store = empty_disk"
  by (simp_all add: empty_store_def init_def fresh_def load_from_disk_def load_chunks_def
      empty_disk_def)

lemma batch_drop: "batch (drop batch_size texts) i = batch texts (Suc i)"
  by (simp add: batch_def add.commute)

lemma embed_batches_fails:
  "i * batch_size < length texts \<Longrightarrow> embed_documents env (batch texts i) = Inl e \<Longrightarrow>
   \<exists>e' j. j \<le> i \<and> embed_documents env (batch texts j) = Inl e' \<and>
          (\<forall>k<j. \<not> isl (embed_documents env (batch texts k))) \<and>
          embed_batches env texts = Inl e'"
proof (induction i arbitrary: texts)
  case 0
  then have "texts \<noteq> []" by auto
  with 0 have "embed_batches env texts = Inl e"
    by (subst embed_batches.simps) (simp add: batch_def)
  with 0 show ?case by (intro exI [of _ e] exI [of _ 0]) simp
next
  case (Suc i)
  from Suc.prems have ne: "texts \<noteq> []" by auto
  show ?case
  proof (cases "embed_documents env (take batch_size texts)")
    case (Inl e0)
    with ne have "embed_batches env texts = Inl e0"
      by (subst embed_batches.simps) simp
    with Inl show ?thesis by (intro exI [of _ e0] exI [of _ 0]) (simp add: batch_def)
  next
    case (Inr vs)
    from Suc.prems have "i * batch_size < length (drop batch_size texts)" by simp
    moreover from Suc.prems have "embed_documents env (batch (drop batch_size texts) i) = Inl e"
      by (simp add: batch_drop)
    ultimately obtain e' j where j: "j \<le> i"
      "embed_documents env (batch (drop batch_size texts) j) = Inl e'"
      "\<forall>k<j. \<not> isl (embed_documents env (batch (drop batch_size texts) k))"
      "embed_batches env (drop batch_size texts) = Inl e'"
      using Suc.IH by blast
    from ne Inr j(4) have res: "embed_batches env texts = Inl e'"
      by (subst embed_batches.simps) simp
    have first: "\<forall>k<Suc j. \<not> isl (embed_documents env (batch texts k))"
    proof (intro allI impI)
      fix k assume "k < Suc j"
      show "\<not> isl (embed_documents env (batch texts k))"
      proof (cases k)
        case 0
        with Inr show ?thesis by (simp add: batch_def)
      next
        case (Suc k')
        with \<open>k < Suc j\<close> j(3) show ?thesis by (simp add: batch_drop)
      qed
    qed
    from j(1,2) res first show ?thesis
      by (intro exI [of _ e'] exI [of _ "Suc j"]) (simp add: batch_drop)
  qed
qed

subsection \<open>add_chunks with no chunk\<close>

text \<open>
  Claim C10. Calling \<^verbatim>\<open>add_chunks\<close> with an empty chunk sequence is a complete
  no-op: it returns successfully, and the store it leaves (dense matrix, sparse corpus
  and index, chunk records, document records and the files on disk) is the store it was
  given. The statement holds for every provider, so the provider's answers play no part
  in the result: the call returns before the provider is asked.
\<close>

theorem add_chunks_empty_noop: "add_chunks env doc_id [] s = (Inr (), s)"
  by (simp add: add_chunks_def)

subsection \<open>Search on a store without chunks\<close>

text \<open>
  Claim C5. If the store holds zero chunks, \<^verbatim>\<open>search\<close> returns the empty list, for
  every query, every \<open>top_k\<close>, every filter and every \<open>alpha\<close>. The model of
  \<^verbatim>\<open>search\<close> returns a list and has no error result: the guard comes before any call
  that may raise.
\<close>

theorem search_empty_store:
  assumes "chunks_metadata s = []"
  shows "search env s query top_k doc_filter alpha = []"
  using assms by (simp add: search_def)

theorem search_empty_store_witness:
  "chunks_metadata empty_store = [] \<and> search demo_env empty_store ''mammals'' 5 None (7 / 10) = []"
  using search_empty_store [of empty_store demo_env "''mammals''" 5 None "7 / 10"]
  by (simp add: empty_store_fields)

subsection \<open>A failing embedding batch\<close>

text \<open>
  Claim C8. If the embedding of any batch fails, the whole call of \<^verbatim>\<open>add_chunks\<close>
  fails: it raises the provider's error of the first failing batch, and the store it
  leaves is the store it was given, so the dense matrix, the sparse corpus, the chunk
  records and the files on disk are unchanged.
\<close>

theorem add_chunks_embedding_failure:
  assumes "i * batch_size < length chunks"
    and "embed_documents env (batch (map chunk_text chunks) i) = Inl e"
  shows "\<exists>e' j. j \<le> i \<and> embed_documents env (batch (map chunk_text chunks) j) = Inl e' \<and>
           (\<forall>k<j. \<not> isl (embed_documents env (batch (map chunk_text chunks) k))) \<and>
           add_chunks env doc_id chunks s = (Inl e', s)"
proof -
  from assms(1) have ne: "chunks \<noteq> []" by auto
  from assms have "\<exists>e' j. j \<le> i \<and> embed_documents env (batch (map chunk_text chunks) j) = Inl e' \<and>
          (\<forall>k<j. \<not> isl (embed_documents env (batch (map chunk_text chunks) k))) \<and>
          embed_batches env (map chunk_text chunks) = Inl e'"
    by (intro embed_batches_fails) simp_all
  then obtain e' j where "j \<le> i" "embed_documents env (batch (map chunk_text chunks) j) = Inl e'"
    "\<forall>k<j. \<not> isl (embed_documents env (batch (map chunk_text chunks) k))"
    "embed_batches env (map chunk_text chunks) = Inl e'" by blast
  with ne show ?thesis
    by (intro exI [of _ e'] exI [of _ j]) (simp add: add_chunks_def)
qed

theorem add_chunks_embedding_failure_witness:
  "0 * batch_size < length demo_chunks \<and>
   embed_documents failing_env (batch (map chunk_text demo_chunks) 0) = Inl (EmbeddingFailure ''quota'') \<and>
   add_chunks failing_env ''doc1'' demo_chunks demo_store = (Inl (EmbeddingFailure ''quota''), demo_store)"
proof -
  have a: "0 * batch_size < length demo_chunks" by (simp add: demo_chunks_def)
  have b: "embed_documents failing_env (batch (map chunk_text demo_chunks) 0) = Inl (EmbeddingFailure ''quota'')"
    by (simp add: failing_env_def)
  from add_chunks_embedding_failure [OF a b, of "''doc1''" demo_store]
  obtain e' j where "embed_documents failing_env (batch (map chunk_text demo_chunks) j) = Inl e'"
    "add_chunks failing_env ''doc1'' demo_chunks demo_store = (Inl e', demo_store)" by blast
  moreover then have "e' = EmbeddingFailure ''quota''" by (simp add: failing_env_def)
  ultimately show ?thesis using a b by simp
qed

subsection \<open>The sample stores, evaluated\<close>

lemma demo_tokens:
  "tokenize ''cats are mammals'' = [''cats'', ''are'', ''mammals'']"
  "tokenize ''dogs are mammals'' = [''dogs'', ''are'', ''mammals'']"
  "tokenize ''rocks are minerals'' = [''rocks'', ''are'', ''minerals'']"
  "tokenize ''mammals'' = [''mammals'']"
  by code_simp+

lemma demo_embed: "embed_batches demo_env (map chunk_text demo_chunks) =
    Inr [[1, 0], [0, 1], [- 1, 0]]"
  by (simp add: embed_batches.simps [of _ "_ # _"] embed_batches.simps [of _ "[]"] demo_chunks_def mk_chunk_def
      batch_size_def demo_env_def demo_embedding_def)

lemma demo_add:
  "add_chunks demo_env ''doc1'' demo_chunks empty_store =
     (Inr (), save_to_disk (empty_store\<lparr>vectors := Some (Arr2 2 [[1, 0], [0, 1], [- 1, 0]]),
        tokenized_corpus := map tokenize (map chunk_text demo_chunks),
        bm25 := Some (demo_scores (map tokenize (map chunk_text demo_chunks))),
        chunks_metadata := store_metadata ''doc1'' demo_chunks\<rparr>))"
  apply (simp add: add_chunks_def demo_embed empty_store_fields Let_def)
  apply (simp add: demo_chunks_def demo_env_def empty_store_fields numeral_2_eq_2)
  done

lemma demo_store_fields:
  "vectors demo_store = Some (Arr2 2 [[1, 0], [0, 1], [- 1, 0]])"
  "chunks_metadata demo_store = store_metadata ''doc1'' demo_chunks"
  "tokenized_corpus demo_store = map tokenize (map chunk_text demo_chunks)"
  "bm25 demo_store = Some (demo_scores (map tokenize (map chunk_text demo_chunks)))"
  by (simp_all add: demo_store_def demo_add update_document_status_def save_to_disk_def
      empty_store_fields Let_def)

lemma demo_vector_results: "vector_results demo_env demo_store q = [1, 0, - 1]"
  by (simp add: vector_results_def demo_store_fields demo_env_def norm2_def dot_def)

lemma demo_bm25_results: "bm25_results demo_store ''mammals'' = [1, 1, 0]"
  by (simp add: bm25_results_def demo_store_fields demo_scores_def demo_chunks_def mk_chunk_def
      demo_tokens Let_def)

lemma demo_length: "length (chunks_metadata demo_store) = 3"
  by (simp add: demo_store_fields store_metadata_def demo_chunks_def)

lemma demo_doc_ids: "i < 3 \<Longrightarrow> document_id (chunks_metadata demo_store ! i) = ''doc1''"
  by (auto simp add: demo_store_fields store_metadata_def demo_chunks_def make_meta_def
   chunk.defs chunk_meta.defs less_Suc_eq numeral_3_eq_3)

lemma upt3: "[0 ..< 3] = [0, 1, 2]"
  by (simp add: upt_rec)

lemma demo_final_results:
  "final_results demo_env demo_store ''mammals'' None (7 / 10) =
     [annotate (chunks_metadata demo_store ! 0) 1 1 1,
      annotate (chunks_metadata demo_store ! 1) (3 / 10) 0 1,
      annotate (chunks_metadata demo_store ! 2) (- (7 / 10)) (- 1) 0]"
  by (simp add: final_results_eq demo_vector_results demo_bm25_results all_candidates_def
      upt3 keeps_def demo_length fused_def dict_get_def numeral_2_eq_2)

lemma demo_search:
  "search demo_env demo_store ''mammals'' 2 None (7 / 10) =
     [annotate (chunks_metadata demo_store ! 0) 1 1 1,
      annotate (chunks_metadata demo_store ! 1) (3 / 10) 0 1]"
  by (simp add: search_def demo_final_results demo_store_fields demo_length [simplified demo_store_fields]
    slice_to_def annotate_fields)

lemma demo_tokens2: "tokenize ''rocks are hard'' = [''rocks'', ''are'', ''hard'']"
  by code_simp

lemma demo_embed2: "embed_batches demo_env [''rocks are hard''] = Inr [[- 1, 0]]"
  by (simp add: embed_batches.simps [of _ "_ # _"] embed_batches.simps [of _ "[]"]
      batch_size_def demo_env_def demo_embedding_def)

lemma mk_chunk_text: "chunk_text (mk_chunk t i) = t"
  by (simp add: mk_chunk_def)

lemma demo_add2:
  "add_chunks demo_env ''doc2'' [mk_chunk ''rocks are hard'' 0] demo_store =
     (Inr (), save_to_disk (demo_store\<lparr>vectors := Some (Arr2 2 [[1, 0], [0, 1], [- 1, 0], [- 1, 0]]),
        tokenized_corpus := map tokenize (map chunk_text demo_chunks) @ [tokenize ''rocks are hard''],
        bm25 := Some (demo_scores (map tokenize (map chunk_text demo_chunks) @ [tokenize ''rocks are hard''])),
        chunks_metadata := store_metadata ''doc1'' demo_chunks @
           store_metadata ''doc2'' [mk_chunk ''rocks are hard'' 0]\<rparr>))"
  apply (simp add: add_chunks_def demo_embed2 mk_chunk_text demo_store_fields np_vstack_def Let_def)
  apply (simp add: demo_env_def demo_store_fields)
  done

lemma demo_store2_fields:
  "vectors demo_store2 = Some (Arr2 2 [[1, 0], [0, 1], [- 1, 0], [- 1, 0]])"
  "chunks_metadata demo_store2 =
     store_metadata ''doc1'' demo_chunks @ store_metadata ''doc2'' [mk_chunk ''rocks are hard'' 0]"
  "bm25 demo_store2 =
     Some (demo_scores (map tokenize (map chunk_text demo_chunks) @ [tokenize ''rocks are hard'']))"
  by (simp_all add: demo_store2_def demo_add2 save_to_disk_def)

lemma demo2_vector_results: "vector_results demo_env demo_store2 q = [1, 0, - 1, - 1]"
  by (simp add: vector_results_def demo_store2_fields demo_env_def norm2_def dot_def)

lemma demo2_bm25_results: "bm25_results demo_store2 ''mammals'' = [1, 1, 0, 0]"
  by (simp add: bm25_results_def demo_store2_fields demo_scores_def demo_chunks_def mk_chunk_def
      demo_tokens demo_tokens2 Let_def)

lemma demo2_length: "length (chunks_metadata demo_store2) = 4"
  by (simp add: demo_store2_fields store_metadata_def demo_chunks_def)

lemma demo2_doc_id_nth:
  "document_id (chunks_metadata demo_store2 ! 0) = ''doc1''"
  "document_id (chunks_metadata demo_store2 ! Suc 0) = ''doc1''"
  "document_id (chunks_metadata demo_store2 ! Suc (Suc 0)) = ''doc1''"
  "document_id (chunks_metadata demo_store2 ! Suc (Suc (Suc 0))) = ''doc2''"
  by (simp_all add: demo_store2_fields store_metadata_def demo_chunks_def make_meta_def
      chunk.defs chunk_meta.defs)

lemma upt4: "[0 ..< 4] = [0, 1, 2, 3]"
  by (simp add: upt_rec)

lemma demo2_search:
  "search demo_env demo_store2 ''mammals'' 1 (Some ''doc2'') (7 / 10) =
     [annotate (chunks_metadata demo_store2 ! 3) (- (7 / 10)) (- 1) 0]"
  by (simp add: search_def final_results_eq demo2_vector_results demo2_bm25_results
      all_candidates_def upt4 keeps_def demo2_length fused_def dict_get_def
      demo2_doc_id_nth slice_to_def demo_store2_fields(1) numeral_3_eq_3)

lemma demo_search_empty_filter:
  "search demo_env demo_store ''mammals'' 2 (Some []) (7 / 10) =
     [annotate (chunks_metadata demo_store ! 0) 1 1 1,
      annotate (chunks_metadata demo_store ! 1) (3 / 10) 0 1]"
  by (simp add: search_def final_results_eq demo_vector_results demo_bm25_results
      all_candidates_def upt3 keeps_def demo_length fused_def dict_get_def numeral_2_eq_2
      slice_to_def demo_store_fields(1) annotate_fields)

subsection \<open>The fused score\<close>

lemma in_final_results:
  assumes "r \<in> set (final_results env s q f alpha)"
  shows "\<exists>idx. keeps (chunks_metadata s) f idx \<and>
           r = fused (chunks_metadata s) alpha (vector_results env s q) (bm25_results s q) idx"
  using assms by (auto simp: final_results_eq)

text \<open>
  Claim C3. Every result that \<^verbatim>\<open>search\<close> returns is annotated with a fused score, a
  dense component and a sparse component, and the fused score is \<open>alpha\<close> times the
  dense component plus \<open>1 - alpha\<close> times the sparse component. The result is the
  chunk record at some position \<open>idx\<close>, its dense component is the dense score of
  that position and its sparse component the sparse score of that position, each 0 when
  the position is missing from that scoring path.
\<close>

theorem fused_score_formula:
  assumes "r \<in> set (search env s query top_k doc_filter alpha)"
  shows "score r = alpha * vector_score r + (1 - alpha) * bm25_score r \<and>
         (\<exists>idx < length (chunks_metadata s).
            chunk_meta.truncate r = chunks_metadata s ! idx \<and>
            vector_score r =
              (if idx < length (vector_results env s query)
               then vector_results env s query ! idx else 0) \<and>
            bm25_score r =
              (if idx < length (bm25_results s query)
               then bm25_results s query ! idx else 0))"
proof -
  from assms search_subset have "r \<in> set (final_results env s query doc_filter alpha)"
    by blast
  then obtain idx where k: "keeps (chunks_metadata s) doc_filter idx"
    and r: "r = fused (chunks_metadata s) alpha (vector_results env s query)
                  (bm25_results s query) idx"
    using in_final_results by blast
  from k have "idx < length (chunks_metadata s)" by (simp add: keeps_def)
  with r show ?thesis
    by (auto simp: fused_def annotate_fields truncate_annotate dict_get_def)
qed

theorem fused_score_formula_witness:
  "annotate (chunks_metadata demo_store ! 1) (3 / 10) 0 1
     \<in> set (search demo_env demo_store ''mammals'' 2 None (7 / 10)) \<and>
   score (annotate (chunks_metadata demo_store ! 1) (3 / 10) 0 1) =
     7 / 10 * vector_score (annotate (chunks_metadata demo_store ! 1) (3 / 10) 0 1) +
     (1 - 7 / 10) * bm25_score (annotate (chunks_metadata demo_store ! 1) (3 / 10) 0 1)"
proof -
  have m: "annotate (chunks_metadata demo_store ! 1) (3 / 10) 0 1
     \<in> set (search demo_env demo_store ''mammals'' 2 None (7 / 10))"
    by (simp add: demo_search)
  from fused_score_formula [OF m] m show ?thesis by blast
qed

subsection \<open>The document filter\<close>

lemma keeps_Some:
  "d \<noteq> [] \<Longrightarrow> keeps cms (Some d) idx = (keeps cms None idx \<and> document_id (cms ! idx) = d)"
  by (auto simp: keeps_def)

lemma keeps_Some_fun:
  "d \<noteq> [] \<Longrightarrow>
   keeps cms (Some d) = (\<lambda>idx. keeps cms None idx \<and> document_id (cms ! idx) = d)"
  by (rule ext) (simp add: keeps_Some)

lemma document_id_fused: "document_id (fused cms alpha vr br idx) = document_id (cms ! idx)"
  by (simp add: fused_def annotate_fields)

lemma keeps_empty_filter: "keeps cms (Some []) = keeps cms None"
  by (rule ext) (simp add: keeps_def)

lemma final_results_empty_filter:
  "final_results env s query (Some []) alpha = final_results env s query None alpha"
  by (simp add: final_results_eq keeps_empty_filter)

lemma final_results_filter:
  "d \<noteq> [] \<Longrightarrow> final_results env s query (Some d) alpha =
     filter (\<lambda>r. document_id r = d) (final_results env s query None alpha)"
  by (simp add: final_results_eq filter_map o_def document_id_fused keeps_Some_fun conj_commute)

text \<open>
  Claim C6, as amended. For every query and every non-empty document id \<open>d\<close>, when
  the filter is \<open>d\<close> every returned result has \<open>document_id = d\<close>, and the filter is
  applied before ranking and truncating: the returned list is the ranking, truncated to
  \<open>top_k\<close>, of those candidates of the unfiltered search whose document is \<open>d\<close>,
  whatever the scores of the chunks of other documents. An empty-string filter is
  treated as no filter: the search returns what the unfiltered search returns.
\<close>

theorem filter_correctness:
  "search env s query top_k (Some []) alpha = search env s query top_k None alpha \<and>
   (d \<noteq> [] \<longrightarrow>
      (\<forall>r \<in> set (search env s query top_k (Some d) alpha). document_id r = d) \<and>
      final_results env s query (Some d) alpha =
        filter (\<lambda>r. document_id r = d) (final_results env s query None alpha) \<and>
      search env s query top_k (Some d) alpha =
        (if vectors s = None \<or> length (chunks_metadata s) = 0 then []
         else slice_to top_k
                (sort_key (\<lambda>r. - score r)
                   (filter (\<lambda>r. document_id r = d)
                      (final_results env s query None alpha)))))"
proof (intro conjI impI)
  show "search env s query top_k (Some []) alpha = search env s query top_k None alpha"
    by (simp add: search_def final_results_empty_filter)
next
  assume ne: "d \<noteq> []"
  show "\<forall>r \<in> set (search env s query top_k (Some d) alpha). document_id r = d"
  proof
    fix r assume "r \<in> set (search env s query top_k (Some d) alpha)"
    with search_subset have "r \<in> set (final_results env s query (Some d) alpha)" by blast
    with ne show "document_id r = d" by (simp add: final_results_filter)
  qed
next
  assume "d \<noteq> []"
  then show "final_results env s query (Some d) alpha =
        filter (\<lambda>r. document_id r = d) (final_results env s query None alpha)"
    by (rule final_results_filter)
next
  assume "d \<noteq> []"
  then show "search env s query top_k (Some d) alpha =
        (if vectors s = None \<or> length (chunks_metadata s) = 0 then []
         else slice_to top_k
                (sort_key (\<lambda>r. - score r)
                   (filter (\<lambda>r. document_id r = d)
                      (final_results env s query None alpha))))"
    by (simp add: search_def final_results_filter)
qed

theorem filter_correctness_witness:
  "''doc2'' \<noteq> [] \<and>
   search demo_env demo_store2 ''mammals'' 1 (Some ''doc2'') (7 / 10) =
     [annotate (chunks_metadata demo_store2 ! 3) (- (7 / 10)) (- 1) 0] \<and>
   document_id (annotate (chunks_metadata demo_store2 ! 3) (- (7 / 10)) (- 1) 0) = ''doc2'' \<and>
   score (annotate (chunks_metadata demo_store2 ! 0) 1 1 1) > - (7 / 10) \<and>
   search demo_env demo_store2 ''mammals'' 1 (Some ''doc2'') (7 / 10) =
     slice_to 1 (sort_key (\<lambda>r. - score r) (filter (\<lambda>r. document_id r = ''doc2'')
        (final_results demo_env demo_store2 ''mammals'' None (7 / 10))))"
proof -
  have ne: "''doc2'' \<noteq> []" by simp
  from filter_correctness [of demo_env demo_store2 "''mammals''" 1 "7 / 10" "''doc2''"] ne
  show ?thesis
    by (simp add: demo2_search annotate_fields demo_store2_fields(1) demo2_length)
qed

text \<open>
  Claim C6 as stated, for every document id, fails at the empty string: the test
  \<^verbatim>\<open>if document_id and ...\<close> treats it as no filter, and the search returns the
  chunks of \<^verbatim>\<open>"doc1"\<close>.
\<close>

theorem filter_empty_string_counterexample:
  "\<not> (\<forall>r \<in> set (search demo_env demo_store ''mammals'' 2 (Some []) (7 / 10)).
         document_id r = [])"
  by (simp add: demo_search_empty_filter annotate_fields demo_doc_ids)

subsection \<open>Ranking\<close>

lemma final_results_index_order:
  "\<exists>idxs. sorted_wrt (<) idxs \<and> (\<forall>i \<in> set idxs. i < length (chunks_metadata s)) \<and>
     map chunk_meta.truncate (final_results env s q f alpha) = map ((!) (chunks_metadata s)) idxs"
proof -
  let ?idxs = "filter (keeps (chunks_metadata s) f)
                 (all_candidates (vector_results env s q) (bm25_results s q))"
  have "sorted_wrt (<) ?idxs"
    by (simp add: all_candidates_def sorted_wrt_filter)
  moreover have "\<forall>i \<in> set ?idxs. i < length (chunks_metadata s)"
    by (simp add: keeps_def)
  moreover have "map chunk_meta.truncate (final_results env s q f alpha) =
      map ((!) (chunks_metadata s)) ?idxs"
    by (simp add: final_results_eq fused_def truncate_annotate o_def)
  ultimately show ?thesis by blast
qed

lemma final_results_no_chunks:
  "chunks_metadata s = [] \<Longrightarrow> final_results env s q f alpha = []"
  by (simp add: final_results_eq keeps_def)

text \<open>
  Claim C7. With a dense matrix present and \<open>top_k \<ge> 0\<close>, \<^verbatim>\<open>search\<close> returns the first
  \<open>top_k\<close> elements (all of them when there are fewer) of a ranking of the candidates
  that is a permutation of them, is ordered by descending fused score, and keeps
  candidates of equal score in the order of the candidate list, which is the order of
  their chunk positions.
\<close>

theorem ranking_order:
  assumes "vectors s \<noteq> None" and "0 \<le> top_k"
  shows "\<exists>ranked idxs.
     search env s query top_k doc_filter alpha = take (nat top_k) ranked \<and>
     length (search env s query top_k doc_filter alpha) =
       min (nat top_k) (length (final_results env s query doc_filter alpha)) \<and>
     mset ranked = mset (final_results env s query doc_filter alpha) \<and>
     sorted_wrt (\<lambda>a b. score a \<ge> score b) ranked \<and>
     (\<forall>v. filter (\<lambda>r. score r = v) ranked =
          filter (\<lambda>r. score r = v) (final_results env s query doc_filter alpha)) \<and>
     sorted_wrt (<) idxs \<and>
     map chunk_meta.truncate (final_results env s query doc_filter alpha) =
       map ((!) (chunks_metadata s)) idxs"
proof -
  let ?fr = "final_results env s query doc_filter alpha"
  let ?ranked = "sort_key (\<lambda>r. - score r) ?fr"
  have s: "search env s query top_k doc_filter alpha = take (nat top_k) ?ranked"
    using assms by (cases "chunks_metadata s = []")
      (auto simp: search_def slice_to_def final_results_no_chunks)
  have l: "length (search env s query top_k doc_filter alpha) = min (nat top_k) (length ?fr)"
    by (simp add: s min.commute)
  have m: "mset ?ranked = mset ?fr" by simp
  have "sorted (map (\<lambda>r. - score r) ?ranked)" by (rule sorted_sort_key)
  then have o: "sorted_wrt (\<lambda>a b. score a \<ge> score b) ?ranked"
    by (simp add: sorted_map)
  have st: "\<forall>v. filter (\<lambda>r. score r = v) ?ranked = filter (\<lambda>r. score r = v) ?fr"
  proof
    fix v
    from sort_key_stable [of "\<lambda>r. - score r" "- v" ?fr]
    show "filter (\<lambda>r. score r = v) ?ranked = filter (\<lambda>r. score r = v) ?fr" by simp
  qed
  from final_results_index_order [of s env query doc_filter alpha]
  obtain idxs where i: "sorted_wrt (<) idxs"
    "map chunk_meta.truncate ?fr = map ((!) (chunks_metadata s)) idxs" by blast
  from s l m o st i show ?thesis by blast
qed

theorem ranking_order_witness:
  "vectors demo_store \<noteq> None \<and> (0::int) \<le> 2 \<and>
   length (search demo_env demo_store ''mammals'' 2 None (7 / 10)) =
     min (nat 2) (length (final_results demo_env demo_store ''mammals'' None (7 / 10))) \<and>
   search demo_env demo_store ''mammals'' 2 None (7 / 10) =
     [annotate (chunks_metadata demo_store ! 0) 1 1 1,
      annotate (chunks_metadata demo_store ! 1) (3 / 10) 0 1]"
proof -
  have v: "vectors demo_store \<noteq> None" by (simp add: demo_store_fields)
  have k: "(0::int) \<le> 2" by simp
  from ranking_order [OF v k, of demo_env "''mammals''" None "7 / 10"] v demo_search
  show ?thesis by auto
qed

subsection \<open>The alignment invariant\<close>

lemma embed_batches_length:
  "provider_ok env \<Longrightarrow> embed_batches env texts = Inr vs \<Longrightarrow> length vs = length texts"
proof (induction env texts arbitrary: vs rule: embed_batches.induct)
  case (1 env texts)
  show ?case
  proof (cases "texts = []")
    case True
    with "1.prems" show ?thesis by (simp add: embed_batches.simps)
  next
    case False
    from False "1.prems"(2) obtain b rest where
      b: "embed_documents env (take batch_size texts) = Inr b" and
      r: "embed_batches env (drop batch_size texts) = Inr rest" and
      vs: "vs = b @ rest"
      by (subst (asm) embed_batches.simps) (auto split: sum.splits)
    from "1.prems"(1) b have "length b = length (take batch_size texts)"
      by (simp add: provider_ok_def)
    moreover from "1.IH" [OF False b "1.prems"(1) r]
    have "length rest = length (drop batch_size texts)" .
    ultimately show ?thesis using vs by simp
  qed
qed

lemma embed_batches_map:
  "embeds_by env f \<Longrightarrow> embed_batches env texts = Inr vs \<Longrightarrow> vs = map f texts"
proof (induction env texts arbitrary: vs rule: embed_batches.induct)
  case (1 env texts)
  show ?case
  proof (cases "texts = []")
    case True
    with "1.prems" show ?thesis by (simp add: embed_batches.simps)
  next
    case False
    from False "1.prems"(2) obtain b rest where
      b: "embed_documents env (take batch_size texts) = Inr b" and
      r: "embed_batches env (drop batch_size texts) = Inr rest" and
      vs: "vs = b @ rest"
      by (subst (asm) embed_batches.simps) (auto split: sum.splits)
    from "1.prems"(1) b have "b = map f (take batch_size texts)"
      by (simp add: embeds_by_def)
    moreover from "1.IH" [OF False b "1.prems"(1) r]
    have "rest = map f (drop batch_size texts)" .
    ultimately have "vs = map f (take batch_size texts @ drop batch_size texts)"
      using vs by (simp del: append_take_drop_id)
    then show ?thesis by simp
  qed
qed

lemma np_array_rows: "np_array vs = Inr a \<Longrightarrow> vs \<noteq> [] \<Longrightarrow> \<exists>d. a = Arr2 d vs"
  by (cases vs) (auto split: if_splits)

lemma chunk_text_make_meta: "chunk_text (make_meta d i c) = chunk_text c"
  by (simp add: make_meta_def chunk.defs chunk_meta.defs)

lemma document_id_make_meta: "document_id (make_meta d i c) = d"
  by (simp add: make_meta_def chunk.defs chunk_meta.defs)

lemma store_metadata_texts:
  "map (\<lambda>c. g (chunk_text c)) (store_metadata d cs) = map (\<lambda>c. g (chunk_text c)) cs"
proof -
  have "map (\<lambda>c. g (chunk_text c)) (store_metadata d cs) =
        map (\<lambda>p. g (chunk_text (snd p))) (enumerate 0 cs)"
    by (simp add: store_metadata_def chunk_text_make_meta split_def o_def)
  also have "\<dots> = map ((\<lambda>c. g (chunk_text c)) \<circ> snd) (enumerate 0 cs)"
    by (simp add: o_def)
  also have "\<dots> = map (\<lambda>c. g (chunk_text c)) (map snd (enumerate 0 cs))"
    by (simp only: map_map)
  finally show ?thesis by simp
qed

lemma length_store_metadata: "length (store_metadata d cs) = length cs"
  by (simp add: store_metadata_def)

lemma add_chunks_success:
  assumes "add_chunks env d cs s = (Inr (), s')" and "cs \<noteq> []"
  shows "\<exists>embeddings a v' b.
     embed_batches env (map chunk_text cs) = Inr embeddings \<and>
     np_array embeddings = Inr a \<and>
     (case vectors s of None \<Rightarrow> Inr a | Some v \<Rightarrow> np_vstack v a) = Inr v' \<and>
     s' = save_to_disk (s\<lparr>vectors := Some v',
            tokenized_corpus := tokenized_corpus s @ map tokenize (map chunk_text cs),
            bm25 := b,
            chunks_metadata := chunks_metadata s @ store_metadata d cs\<rparr>)"
  using assms
  by (auto simp: add_chunks_def Let_def split: sum.splits if_splits)

lemma save_to_disk_fields:
  "vectors (save_to_disk s) = vectors s" "chunks_metadata (save_to_disk s) = chunks_metadata s"
  "tokenized_corpus (save_to_disk s) = tokenized_corpus s" "bm25 (save_to_disk s) = bm25 s"
  "document_metadata (save_to_disk s) = document_metadata s"
  by (simp_all add: save_to_disk_def)

lemma aligned_save: "aligned (save_to_disk s) = aligned s"
  by (simp add: aligned_def save_to_disk_fields split: option.split)

lemma rows_by_save: "rows_by f (save_to_disk s) = rows_by f s"
  by (simp add: rows_by_def dense_rows_def save_to_disk_fields)

lemma is_matrixE: "is_matrix v \<Longrightarrow> \<exists>d rows. v = Arr2 d rows"
  by (cases v) (simp_all add: is_matrix_def)

lemma aligned_start: "aligned (init env empty_disk)"
  by (simp add: aligned_def init_def fresh_def load_from_disk_def load_chunks_def empty_disk_def)

lemma rows_by_start: "rows_by f (init env empty_disk)"
  by (simp add: rows_by_def dense_rows_def init_def fresh_def load_from_disk_def load_chunks_def
      empty_disk_def)

lemma add_chunks_rows:
  assumes ok: "provider_ok env" and al: "aligned s"
    and add: "add_chunks env d cs s = (Inr (), s')" and ne: "cs \<noteq> []"
  shows "\<exists>embeddings dv b.
     embed_batches env (map chunk_text cs) = Inr embeddings \<and>
     length embeddings = length cs \<and>
     s' = save_to_disk (s\<lparr>vectors := Some (Arr2 dv (dense_rows s @ embeddings)),
            tokenized_corpus := tokenized_corpus s @ map tokenize (map chunk_text cs),
            bm25 := b,
            chunks_metadata := chunks_metadata s @ store_metadata d cs\<rparr>)"
proof -
  from add_chunks_success [OF add ne] obtain embeddings a v' b where
    e: "embed_batches env (map chunk_text cs) = Inr embeddings" and
    a: "np_array embeddings = Inr a" and
    v: "(case vectors s of None \<Rightarrow> Inr a | Some v \<Rightarrow> np_vstack v a) = Inr v'" and
    s': "s' = save_to_disk (s\<lparr>vectors := Some v',
            tokenized_corpus := tokenized_corpus s @ map tokenize (map chunk_text cs),
            bm25 := b,
            chunks_metadata := chunks_metadata s @ store_metadata d cs\<rparr>)"
    by blast
  from embed_batches_length [OF ok e] have len: "length embeddings = length cs" by simp
  with ne have "embeddings \<noteq> []" by auto
  with a obtain da where da: "a = Arr2 da embeddings" using np_array_rows by blast
  have "\<exists>dv. v' = Arr2 dv (dense_rows s @ embeddings)"
  proof (cases "vectors s")
    case None
    with v da show ?thesis by (auto simp: dense_rows_def)
  next
    case (Some v0)
    with al have "is_matrix v0" by (simp add: aligned_def)
    then obtain d0 rows where "v0 = Arr2 d0 rows" using is_matrixE by blast
    with Some v da show ?thesis
      by (auto simp: np_vstack_def dense_rows_def split: if_splits)
  qed
  with e len s' show ?thesis by blast
qed

lemma aligned_rows: "aligned s \<Longrightarrow> length (dense_rows s) = length (chunks_metadata s)"
  by (auto simp: aligned_def dense_rows_def split: option.splits dest!: is_matrixE)

lemma aligned_add:
  assumes ok: "provider_ok env" and al: "aligned s"
    and add: "add_chunks env d cs s = (Inr (), s')"
  shows "aligned s'"
proof (cases "cs = []")
  case True
  with add al show ?thesis by (simp add: add_chunks_def)
next
  case False
  from add_chunks_rows [OF ok al add False] obtain embeddings dv b where
    len: "length embeddings = length cs" and
    s': "s' = save_to_disk (s\<lparr>vectors := Some (Arr2 dv (dense_rows s @ embeddings)),
            tokenized_corpus := tokenized_corpus s @ map tokenize (map chunk_text cs),
            bm25 := b,
            chunks_metadata := chunks_metadata s @ store_metadata d cs\<rparr>)"
    by blast
  from al have c: "tokenized_corpus s = map (\<lambda>c. tokenize (chunk_text c)) (chunks_metadata s)"
    by (simp add: aligned_def)
  show ?thesis
    unfolding s' aligned_save
    by (simp add: aligned_def is_matrix_def aligned_rows [OF al] len length_store_metadata
        c store_metadata_texts o_def)
qed

lemma rows_by_add:
  assumes ok: "provider_ok env" and al: "aligned s" and by_f: "embeds_by env f"
    and rb: "rows_by f s" and add: "add_chunks env d cs s = (Inr (), s')"
  shows "rows_by f s'"
proof (cases "cs = []")
  case True
  with add rb show ?thesis by (simp add: add_chunks_def)
next
  case False
  from add_chunks_rows [OF ok al add False] obtain embeddings dv b where
    e: "embed_batches env (map chunk_text cs) = Inr embeddings" and
    s': "s' = save_to_disk (s\<lparr>vectors := Some (Arr2 dv (dense_rows s @ embeddings)),
            tokenized_corpus := tokenized_corpus s @ map tokenize (map chunk_text cs),
            bm25 := b,
            chunks_metadata := chunks_metadata s @ store_metadata d cs\<rparr>)"
    by blast
  from embed_batches_map [OF by_f e] have "embeddings = map f (map chunk_text cs)" .
  with rb show ?thesis
    unfolding s' rows_by_save
    by (simp add: rows_by_def dense_rows_def store_metadata_texts o_def)
qed

lemma update_document_status_shape:
  "\<exists>dm. update_document_status d st cnt pa fname s = save_to_disk (s\<lparr>document_metadata := dm\<rparr>)"
  by (cases "map_of (document_metadata s) d")
    (auto simp add: update_document_status_def Let_def)

lemma aligned_status: "aligned (update_document_status d st cnt pa fname s) = aligned s"
proof -
  from update_document_status_shape [of d st cnt pa fname s] obtain dm where
    "update_document_status d st cnt pa fname s = save_to_disk (s\<lparr>document_metadata := dm\<rparr>)"
    by blast
  then show ?thesis by (simp add: aligned_save) (simp add: aligned_def split: option.split)
qed

lemma rows_by_status: "rows_by f (update_document_status d st cnt pa fname s) = rows_by f s"
proof -
  from update_document_status_shape [of d st cnt pa fname s] obtain dm where
    "update_document_status d st cnt pa fname s = save_to_disk (s\<lparr>document_metadata := dm\<rparr>)"
    by blast
  then show ?thesis by (simp add: rows_by_save) (simp add: rows_by_def dense_rows_def split: option.split)
qed

lemma remaining_indices_bound: "i \<in> set (remaining_indices cms d) \<Longrightarrow> i < length cms"
  by (simp add: remaining_indices_def)

lemma delete_document_shape:
  assumes "delete_document env d s = (Inr b, s')" and "aligned s"
  shows "(chunks_metadata s' = chunks_metadata s \<and> vectors s' = vectors s \<and>
          tokenized_corpus s' = tokenized_corpus s) \<or>
         (chunks_metadata s' =
            map ((!) (chunks_metadata s)) (remaining_indices (chunks_metadata s) d) \<and>
          tokenized_corpus s' = map (\<lambda>c. tokenize (chunk_text c)) (chunks_metadata s') \<and>
          (if chunks_metadata s' = [] then vectors s' = None
           else \<exists>dv. vectors s' =
                  Some (Arr2 dv (map ((!) (dense_rows s))
                                  (remaining_indices (chunks_metadata s) d)))))"
proof (cases "map_of (document_metadata s) d = None")
  case True
  with assms(1) have "s' = s" by (simp add: delete_document_def)
  then show ?thesis by simp
next
  case known: False
  let ?rem = "remaining_indices (chunks_metadata s) d"
  show ?thesis
  proof (cases "length ?rem = length (chunks_metadata s)")
    case True
    from assms(1) have "s' = s\<lparr>document_metadata := AList.delete d (document_metadata s)\<rparr>"
      by (simp add: delete_document_def Let_def known True)
    then show ?thesis by simp
  next
    case False
    then have cne: "chunks_metadata s \<noteq> []" by (auto simp: remaining_indices_def)
    with assms(2) obtain dv rows where v: "vectors s = Some (Arr2 dv rows)"
      and len: "length rows = length (chunks_metadata s)"
      by (auto simp: aligned_def split: option.splits dest!: is_matrixE)
    have bound: "list_all (\<lambda>i. i < length rows) ?rem"
      by (simp add: list_all_iff len remaining_indices_bound)
    have dr: "dense_rows s = rows" using v by (simp add: dense_rows_def)
    from assms(1) show ?thesis
      by (auto simp: delete_document_def Let_def known False v bound dr save_to_disk_fields
          split: if_splits sum.splits)
  qed
qed

lemma aligned_delete:
  assumes "aligned s" and "delete_document env d s = (Inr b, s')"
  shows "aligned s'"
  using delete_document_shape [OF assms(2,1)] assms(1)
  by (auto simp: aligned_def is_matrix_def split: option.splits if_splits)

lemma rows_by_delete:
  assumes "aligned s" and "rows_by f s" and "delete_document env d s = (Inr b, s')"
  shows "rows_by f s'"
proof -
  have nth: "map ((!) (map (\<lambda>c. f (chunk_text c)) (chunks_metadata s)))
               (remaining_indices (chunks_metadata s) d) =
             map (\<lambda>c. f (chunk_text c))
               (map ((!) (chunks_metadata s)) (remaining_indices (chunks_metadata s) d))"
    by (simp add: remaining_indices_bound)
  from delete_document_shape [OF assms(3,1)] assms(2) nth show ?thesis
    by (auto simp: rows_by_def dense_rows_def split: option.splits if_splits)
qed

lemma reachable_aligned:
  assumes "provider_ok env" and "reachable env s"
  shows "aligned s"
  using assms(2)
proof (induction rule: reachable.induct)
  case start
  show ?case by (rule aligned_start)
next
  case (add s doc_id chunks s')
  with assms(1) show ?case using aligned_add by blast
next
  case (delete s doc_id b s')
  then show ?case using aligned_delete by blast
next
  case (status s doc_id st cnt pa fname)
  then show ?case by (simp add: aligned_status)
qed

lemma reachable_rows_by:
  assumes "provider_ok env" and "embeds_by env f" and "reachable env s"
  shows "rows_by f s"
  using assms(3)
proof (induction rule: reachable.induct)
  case start
  show ?case by (rule rows_by_start)
next
  case (add s doc_id chunks s')
  with assms(1,2) show ?case using rows_by_add reachable_aligned by blast
next
  case (delete s doc_id b s')
  with assms(1) show ?case using rows_by_delete reachable_aligned by blast
next
  case (status s doc_id st cnt pa fname)
  then show ?case by (simp add: rows_by_status)
qed

lemma demo_docs1: "map fst (document_metadata demo_store) = [''doc1'']"
  by (simp add: demo_store_def demo_add update_document_status_def
      save_to_disk_def empty_store_fields Let_def)

lemma demo_docs2: "document_metadata demo_store2 = document_metadata demo_store"
  by (simp add: demo_store2_def demo_add2 save_to_disk_def)

lemma demo_known:
  "map_of (document_metadata demo_store) ''doc1'' \<noteq> None"
  "map_of (document_metadata demo_store2) ''doc1'' \<noteq> None"
  using demo_docs1 by (simp_all add: map_of_eq_None_iff demo_docs2 flip: set_map)

lemma demo2_remaining: "remaining_indices (chunks_metadata demo_store2) ''doc1'' = [3]"
  by (simp add: remaining_indices_def demo2_length upt4 demo2_doc_id_nth numeral_3_eq_3
      numeral_2_eq_2)

lemma demo_remaining: "remaining_indices (chunks_metadata demo_store) ''doc1'' = []"
  by (simp add: remaining_indices_def demo_length upt3 demo_doc_ids)

lemma demo_delete2_result: "fst (delete_document demo_env ''doc1'' demo_store2) = Inr True"
  by (simp add: delete_document_def Let_def demo_known demo2_remaining demo2_length
      demo_store2_fields(1) demo_env_def)

lemma demo_store3_fields:
  "vectors demo_store3 = Some (Arr2 2 [[- 1, 0]])"
  "chunks_metadata demo_store3 = [chunks_metadata demo_store2 ! 3]"
  "tokenized_corpus demo_store3 = [tokenize (chunk_text (chunks_metadata demo_store2 ! 3))]"
  by (simp_all add: demo_store3_def delete_document_def Let_def demo_known demo2_remaining
      demo2_length demo_store2_fields(1) demo_env_def save_to_disk_fields)

lemma demo_provider_ok: "provider_ok demo_env"
  by (simp add: provider_ok_def demo_env_def)

lemma demo_reachable: "reachable demo_env demo_store3"
proof -
  have "reachable demo_env empty_store"
    unfolding empty_store_def by (rule reachable.start)
  from reachable.add [OF this demo_add]
  have "reachable demo_env (snd (add_chunks demo_env ''doc1'' demo_chunks empty_store))"
    by (simp add: demo_add)
  then have "reachable demo_env demo_store"
    unfolding demo_store_def by (rule reachable.status)
  from reachable.add [OF this demo_add2] have "reachable demo_env demo_store2"
    by (simp add: demo_store2_def demo_add2)
  moreover have "delete_document demo_env ''doc1'' demo_store2 = (Inr True, demo_store3)"
    using demo_delete2_result by (simp add: demo_store3_def prod_eq_iff)
  ultimately show ?thesis by (rule reachable.delete)
qed

text \<open>
  Claim C1. Let the embedding provider return one vector for each text of a batch it
  answers. Then in every state reachable from the empty store by calls of
  \<^verbatim>\<open>add_chunks\<close>, \<^verbatim>\<open>delete_document\<close> (and \<^verbatim>\<open>update_document_status\<close>) that return
  without an exception, the number of chunk records, the number of rows of the dense
  matrix (0 when it is None) and the number of entries of the tokenized corpus are
  equal, and position \<open>i\<close> of each refers to the same chunk: the corpus entry is the
  tokenized text of the chunk record, and the matrix row is the embedding of its text
  whenever the provider embeds text by text.
\<close>

theorem alignment_invariant:
  assumes "provider_ok env" and "reachable env s"
  shows "row_count s = length (chunks_metadata s) \<and>
         length (tokenized_corpus s) = length (chunks_metadata s) \<and>
         tokenized_corpus s = map (\<lambda>c. tokenize (chunk_text c)) (chunks_metadata s) \<and>
         (\<forall>f. embeds_by env f \<longrightarrow>
              dense_rows s = map (\<lambda>c. f (chunk_text c)) (chunks_metadata s))"
proof -
  from assms have al: "aligned s" by (rule reachable_aligned)
  then have "row_count s = length (chunks_metadata s)"
    by (auto simp: aligned_def row_count_def split: option.splits)
  moreover from al have "tokenized_corpus s = map (\<lambda>c. tokenize (chunk_text c)) (chunks_metadata s)"
    by (simp add: aligned_def)
  moreover from assms have "\<forall>f. embeds_by env f \<longrightarrow>
              dense_rows s = map (\<lambda>c. f (chunk_text c)) (chunks_metadata s)"
    using reachable_rows_by by (auto simp: rows_by_def)
  ultimately show ?thesis by simp
qed

theorem alignment_invariant_witness:
  "provider_ok demo_env \<and> reachable demo_env demo_store3 \<and>
   row_count demo_store3 = 1 \<and> length (chunks_metadata demo_store3) = 1 \<and>
   length (tokenized_corpus demo_store3) = 1 \<and>
   tokenized_corpus demo_store3 =
     map (\<lambda>c. tokenize (chunk_text c)) (chunks_metadata demo_store3)"
  using alignment_invariant [OF demo_provider_ok demo_reachable] demo_provider_ok demo_reachable
  by (simp add: demo_store3_fields)

subsection \<open>Score bounds\<close>

























subsection \<open>Deleting a document\<close>

text \<open>What \<^verbatim>\<open>delete_document\<close> does for an unknown document, and for a known document
  that has chunk records, in an aligned store, when the sparse index can be rebuilt: it
  returns True, the status record is gone, the chunk records of the other documents
  are kept in order, both indexes are reset when no chunk record is left, and the chunk
  records and document records are saved.\<close>

lemma kept_chunks:
  "map ((!) cms) (remaining_indices cms d) = filter (\<lambda>c. document_id c \<noteq> d) cms"
proof -
  have "map ((!) cms) (remaining_indices cms d) =
        filter (\<lambda>c. document_id c \<noteq> d) (map ((!) cms) [0 ..< length cms])"
    by (simp add: remaining_indices_def filter_map o_def)
  then show ?thesis by (simp add: map_nth)
qed

lemma length_remaining:
  "(length (remaining_indices cms d) = length cms) = (\<forall>c \<in> set cms. document_id c \<noteq> d)"
proof -
  have l: "length (remaining_indices cms d) = length (filter (\<lambda>c. document_id c \<noteq> d) cms)"
    by (simp add: kept_chunks [symmetric])
  show ?thesis
  proof
    assume "length (remaining_indices cms d) = length cms"
    with l have e: "length (filter (\<lambda>c. document_id c \<noteq> d) cms) = length cms" by simp
    show "\<forall>c \<in> set cms. document_id c \<noteq> d"
    proof
      fix c assume "c \<in> set cms"
      show "document_id c \<noteq> d"
      proof
        assume "document_id c = d"
        with \<open>c \<in> set cms\<close> have "length (filter (\<lambda>c. document_id c \<noteq> d) cms) < length cms"
          by (intro length_filter_less [of c]) simp_all
        with e show False by simp
      qed
    qed
  next
    assume "\<forall>c \<in> set cms. document_id c \<noteq> d"
    with l show "length (remaining_indices cms d) = length cms" by simp
  qed
qed

lemma delete_document_with_chunks:
  assumes al: "aligned s"
    and known: "map_of (document_metadata s) d \<noteq> None"
    and has: "\<not> (\<forall>c \<in> set (chunks_metadata s). document_id c \<noteq> d)"
    and del: "delete_document env d s = (Inr b, s')"
  shows "b \<and> get_document_status s' d = None \<and>
         chunks_metadata s' = filter (\<lambda>c. document_id c \<noteq> d) (chunks_metadata s) \<and>
         (chunks_metadata s' = [] \<longrightarrow> vectors s' = None \<and> bm25 s' = None) \<and>
         chunks_metadata_pkl (files s') = Some (chunks_metadata s') \<and>
         document_metadata_json (files s') = Some (document_metadata s')"
proof -
  let ?rem = "remaining_indices (chunks_metadata s) d"
  let ?kept = "filter (\<lambda>c. document_id c \<noteq> d) (chunks_metadata s)"
  let ?dm = "AList.delete d (document_metadata s)"
  from has have nl: "length ?rem \<noteq> length (chunks_metadata s)"
    by (simp add: length_remaining)
  from has have cne: "chunks_metadata s \<noteq> []" by auto
  with al obtain dv rows where v: "vectors s = Some (Arr2 dv rows)"
    and len: "length rows = length (chunks_metadata s)"
    by (auto simp: aligned_def split: option.splits dest!: is_matrixE)
  have bound: "list_all (\<lambda>i. i < length rows) ?rem"
    by (simp add: list_all_iff len remaining_indices_bound)
  have gone: "map_of ?dm d = None" by (simp add: delete_conv')
  show ?thesis
  proof (cases "?kept = []")
    case True
    from del have "b" and "s' = save_to_disk (s\<lparr>document_metadata := ?dm, chunks_metadata := [],
        vectors := None, tokenized_corpus := [], bm25 := None, vectors := None\<rparr>)"
      by (simp_all add: delete_document_def Let_def known nl v bound kept_chunks True)
    with gone True show ?thesis
      by (simp add: save_to_disk_def get_document_status_def)
  next
    case False
    show ?thesis
    proof (cases "BM25Okapi env (map (\<lambda>c. tokenize (chunk_text c)) ?kept)")
      case (Inl e)
      with del show ?thesis
        by (simp add: delete_document_def Let_def known nl v bound kept_chunks False)
    next
      case (Inr idx)
      with del have "b" and "s' = save_to_disk (s\<lparr>document_metadata := ?dm,
          chunks_metadata := ?kept, vectors := Some (Arr2 dv (map ((!) rows) ?rem)),
          tokenized_corpus := [],
          tokenized_corpus := map (\<lambda>c. tokenize (chunk_text c)) ?kept, bm25 := Some idx\<rparr>)"
        by (simp_all add: delete_document_def Let_def known nl v bound kept_chunks False)
      with gone False show ?thesis
        by (simp add: save_to_disk_def get_document_status_def)
    qed
  qed
qed

lemma delete_document_unknown:
  "map_of (document_metadata s) d = None \<Longrightarrow> delete_document env d s = (Inr False, s)"
  by (simp add: delete_document_def)

lemma demo_failed_fields:
  "document_metadata demo_failed =
     [(''doc9'', \<lparr>doc_document_id = ''doc9'', doc_filename = ''b.txt'', status = ''failed'',
                  chunks_count = 0, processed_at = None\<rparr>)]"
  "chunks_metadata demo_failed = []"
  "document_metadata_json (files demo_failed) = Some (document_metadata demo_failed)"
  "vectors_npy (files demo_failed) = None"
  "chunks_metadata_pkl (files demo_failed) = Some []"
  by (simp_all add: demo_failed_def update_document_status_def save_to_disk_def
      empty_store_fields empty_disk_def Let_def)

text \<open>
  Claim C2 says that \<^verbatim>\<open>delete_document\<close> returns false exactly when the document is
  unknown, and that the updated state is persisted before it returns. The code does
  otherwise for a known document without chunk records (one whose processing failed):
  the status record is deleted from memory, the call then returns False at the test
  on the remaining indices, before \<^verbatim>\<open>_save_to_disk\<close>, so the files still hold
  the record and a fresh engine over them knows the document again.
\<close>

theorem delete_known_without_chunks:
  "get_document_status demo_failed ''doc9'' \<noteq> None \<and>
   fst (delete_document demo_env ''doc9'' demo_failed) = Inr False \<and>
   get_document_status (snd (delete_document demo_env ''doc9'' demo_failed)) ''doc9'' = None \<and>
   files (snd (delete_document demo_env ''doc9'' demo_failed)) = files demo_failed \<and>
   get_document_status
     (init demo_env (files (snd (delete_document demo_env ''doc9'' demo_failed)))) ''doc9''
     \<noteq> None"
  by (simp add: get_document_status_def delete_document_def demo_failed_fields
      remaining_indices_def Let_def init_def load_from_disk_def load_chunks_def fresh_def
      )

subsection \<open>Reloading\<close>

text \<open>A saved store whose dense matrix is present is restored by a fresh engine over
  its storage directory.\<close>

lemma reload_with_matrix:
  assumes "vectors s = Some v" and "chunks_metadata s \<noteq> []"
    and "tokenized_corpus s = map (\<lambda>c. tokenize (chunk_text c)) (chunks_metadata s)"
    and "BM25Okapi env (tokenized_corpus s) = Inr idx" and "bm25 s = Some idx"
  shows "init env (files (save_to_disk s)) = save_to_disk s"
proof -
  from assms(3,4) have b: "BM25Okapi env (map (\<lambda>c. tokenize (chunk_text c)) (chunks_metadata s)) = Inr idx"
    by simp
  show ?thesis
    using assms(1,2,3,5)
    by (simp add: init_def load_from_disk_def load_chunks_def fresh_def save_to_disk_def Let_def b)
qed

lemma demo_deleted_result: "fst (delete_document demo_env ''doc1'' demo_store) = Inr True"
  by (simp add: delete_document_def Let_def demo_known demo_remaining demo_length
      demo_store_fields(1))

lemma demo_store_files:
  "vectors_npy (files demo_store) = Some (Arr2 2 [[1, 0], [0, 1], [- 1, 0]])"
  by (simp add: demo_store_def demo_add update_document_status_def save_to_disk_def Let_def
      split: option.split)

lemma demo_delete_docs: "AList.delete ''doc1'' (document_metadata demo_store) = []"
proof -
  from demo_docs1 obtain r where "document_metadata demo_store = [(''doc1'', r)]"
    by (cases "document_metadata demo_store") auto
  then show ?thesis by simp
qed

lemma demo_deleted_fields:
  "vectors demo_deleted = None" "chunks_metadata demo_deleted = []"
  "tokenized_corpus demo_deleted = []" "document_metadata demo_deleted = []"
  "vectors_npy (files demo_deleted) = Some (Arr2 2 [[1, 0], [0, 1], [- 1, 0]])"
  "chunks_metadata_pkl (files demo_deleted) = Some []"
  "document_metadata_json (files demo_deleted) = Some []"
  by (simp_all add: demo_deleted_def delete_document_def Let_def demo_known demo_remaining
      demo_length demo_store_fields(1) save_to_disk_def demo_store_files demo_delete_docs)

lemma demo_reloaded_fields:
  "vectors demo_reloaded = Some (Arr2 2 [[1, 0], [0, 1], [- 1, 0]])"
  "chunks_metadata demo_reloaded = []" "tokenized_corpus demo_reloaded = []"
  by (simp_all add: demo_reloaded_def init_def load_from_disk_def load_chunks_def fresh_def
      save_to_disk_def demo_deleted_fields)

text \<open>
  Claim C9 says that saving and constructing a fresh engine restores an equal dense
  matrix. The code does not when the matrix is None: \<^verbatim>\<open>_save_to_disk\<close> skips the
  matrix file and leaves the file of an earlier save in place. After the only document
  is deleted the store has no matrix and no chunk record; the fresh engine loads the
  three rows of the deleted document, and a chunk added to it becomes the fourth row of
  a matrix for one chunk record.
\<close>

theorem reload_after_deleting_all:
  "vectors demo_deleted = None \<and>
   vectors demo_reloaded = Some (Arr2 2 [[1, 0], [0, 1], [- 1, 0]]) \<and>
   chunks_metadata demo_reloaded = chunks_metadata demo_deleted \<and>
   fst (add_chunks demo_env ''doc2'' [mk_chunk ''rocks are hard'' 0] demo_reloaded) = Inr () \<and>
   row_count (snd (add_chunks demo_env ''doc2'' [mk_chunk ''rocks are hard'' 0] demo_reloaded)) = 4 \<and>
   length (chunks_metadata
     (snd (add_chunks demo_env ''doc2'' [mk_chunk ''rocks are hard'' 0] demo_reloaded))) = 1"
proof -
  have "add_chunks demo_env ''doc2'' [mk_chunk ''rocks are hard'' 0] demo_reloaded =
     (Inr (), save_to_disk (demo_reloaded\<lparr>vectors := Some (Arr2 2 [[1, 0], [0, 1], [- 1, 0], [- 1, 0]]),
        tokenized_corpus := [tokenize ''rocks are hard''],
        bm25 := Some (demo_scores [tokenize ''rocks are hard'']),
        chunks_metadata := store_metadata ''doc2'' [mk_chunk ''rocks are hard'' 0]\<rparr>))"
    apply (simp add: add_chunks_def demo_embed2 mk_chunk_text demo_reloaded_fields np_vstack_def Let_def)
    apply (simp add: demo_env_def demo_reloaded_fields)
    done
  then show ?thesis
    by (simp add: demo_deleted_fields demo_reloaded_fields row_count_def save_to_disk_fields
        length_store_metadata)
qed

end
